theory Spec2Isabelle
  imports Main "HOL-Library.Word"
begin

section \<open>JavaScript strings\<close>

text \<open>
  A JavaScript string is a sequence of UTF-16 code units, and \<open>s.length\<close> counts code
  units. \<open>js\<close> writes a literal: every character of the Isabelle string is read as
  the code unit of the same number (ASCII, and Latin-1 for the German letters of the
  messages, which are given by number: \<open>0xFC\<close> is u-umlaut).
\<close>

type_synonym jsstring = "16 word list"

definition js :: "string \<Rightarrow> jsstring" where
  "js s = map of_char s"

text \<open>\<open>hay.includes(needle)\<close>: the needle occurs as a contiguous run of code units.\<close>

fun js_includes :: "jsstring \<Rightarrow> jsstring \<Rightarrow> bool" where
  "js_includes [] needle = (needle = [])"
| "js_includes (c # cs) needle =
     (take (length needle) (c # cs) = needle \<or> js_includes cs needle)"

text \<open>
  The decimal digits of a non-negative integer, as a template literal prints a Number
  that holds one (an HTTP status code, a byte count).
\<close>

fun decimal :: "nat \<Rightarrow> jsstring" where
  "decimal n =
     (if n < 10 then [0x30 + of_nat n]
      else decimal (n div 10) @ [0x30 + of_nat (n mod 10)])"

declare decimal.simps [simp del]

text \<open>
  \<open>errorText.replace(/^"|"$/g, '')\<close>: one double quote at the very start is removed, and
  one at the very end (of what is left: the two alternatives never match the same
  code unit).
\<close>

definition strip_quotes :: "jsstring \<Rightarrow> jsstring" where
  "strip_quotes s =
     (let s1 = (case s of [] \<Rightarrow> [] | c # cs \<Rightarrow> if c = 0x22 then cs else s)
      in if s1 \<noteq> [] \<and> last s1 = 0x22 then butlast s1 else s1)"

section \<open>JSON values and \<open>JSON.parse\<close>\<close>

text \<open>
  The values \<open>JSON.parse\<close> can return. A number keeps its lexeme: the double it
  denotes is the platform's business (see \<open>platform\<close>). An object keeps its members
  in the order of the text, duplicates included; reading a member takes the last one of
  that name, as the parser's repeated assignment does.
\<close>

datatype json =
    JNull
  | JBool bool
  | JNum jsstring
  | JStr jsstring
  | JArr "json list"
  | JObj "(jsstring \<times> json) list"

datatype token =
    TLBrace | TRBrace | TLBracket | TRBracket | TColon | TComma
  | TString jsstring | TNumber jsstring | TTrue | TFalse | TNull

definition is_ws :: "16 word \<Rightarrow> bool" where
  "is_ws c = (c = 0x20 \<or> c = 0x09 \<or> c = 0x0A \<or> c = 0x0D)"

definition is_digit :: "16 word \<Rightarrow> bool" where
  "is_digit c = (0x30 \<le> c \<and> c \<le> 0x39)"

definition hex_digit :: "16 word \<Rightarrow> 16 word option" where
  "hex_digit c =
     (if 0x30 \<le> c \<and> c \<le> 0x39 then Some (c - 0x30)
      else if 0x41 \<le> c \<and> c \<le> 0x46 then Some (c - 0x41 + 10)
      else if 0x61 \<le> c \<and> c \<le> 0x66 then Some (c - 0x61 + 10)
      else None)"

definition hex4 :: "16 word \<Rightarrow> 16 word \<Rightarrow> 16 word \<Rightarrow> 16 word \<Rightarrow> 16 word option" where
  "hex4 a b c d =
     (case (hex_digit a, hex_digit b, hex_digit c, hex_digit d) of
        (Some x, Some y, Some z, Some w) \<Rightarrow> Some (((x * 16 + y) * 16 + z) * 16 + w)
      | _ \<Rightarrow> None)"

text \<open>The single-character escapes: quote, backslash, slash, b, f, n, r, t.\<close>

definition simple_escape :: "16 word \<Rightarrow> 16 word option" where
  "simple_escape e =
     (if e = 0x22 then Some 0x22
      else if e = 0x5C then Some 0x5C
      else if e = 0x2F then Some 0x2F
      else if e = 0x62 then Some 0x08
      else if e = 0x66 then Some 0x0C
      else if e = 0x6E then Some 0x0A
      else if e = 0x72 then Some 0x0D
      else if e = 0x74 then Some 0x09
      else None)"

text \<open>
  An escape sequence, after its backslash: the code unit it denotes and the input
  after it. \<open>\u\<close> takes exactly four hexadecimal digits.
\<close>

definition unescape :: "jsstring \<Rightarrow> (16 word \<times> jsstring) option" where
  "unescape cs =
     (case cs of
        [] \<Rightarrow> None
      | e # cs1 \<Rightarrow>
          if e = 0x75 then
            (case cs1 of
               h1 # h2 # h3 # h4 # cs2 \<Rightarrow> map_option (\<lambda>u. (u, cs2)) (hex4 h1 h2 h3 h4)
             | _ \<Rightarrow> None)
          else map_option (\<lambda>x. (x, cs1)) (simple_escape e))"

lemma unescape_shorter: "unescape cs = Some (u, r) \<Longrightarrow> length r < length cs"
  by (auto simp: unescape_def split: list.splits if_splits)

text \<open>
  The body of a string literal, after its opening quote: the decoded string and the
  input after the closing quote. A control character (below \<open>0x20\<close>), an unknown escape
  or the end of the input inside the literal is a syntax error.
\<close>

function lex_string :: "jsstring \<Rightarrow> jsstring \<Rightarrow> (jsstring \<times> jsstring) option" where
  "lex_string acc [] = None"
| "lex_string acc (c # cs) =
     (if c = 0x22 then Some (rev acc, cs)
      else if c = 0x5C then
        (case unescape cs of
           None \<Rightarrow> None
         | Some (u, r) \<Rightarrow> lex_string (u # acc) r)
      else if c < 0x20 then None
      else lex_string (c # acc) cs)"
  by pat_completeness auto
termination
  by (relation "measure (\<lambda>(acc, cs). length cs)") (auto dest: unescape_shorter)

text \<open>
  The number grammar: an optional minus, \<open>0\<close> or a digit string without a leading zero,
  an optional fraction, an optional exponent. Each part returns what follows it.
\<close>

definition num_int :: "jsstring \<Rightarrow> jsstring option" where
  "num_int s =
     (case s of
        [] \<Rightarrow> None
      | c # cs \<Rightarrow>
          if c = 0x30 then Some cs
          else if 0x31 \<le> c \<and> c \<le> 0x39 then Some (dropWhile is_digit cs)
          else None)"

definition num_digits1 :: "jsstring \<Rightarrow> jsstring option" where
  "num_digits1 s =
     (case s of
        [] \<Rightarrow> None
      | d # ds \<Rightarrow> if is_digit d then Some (dropWhile is_digit ds) else None)"

definition num_frac :: "jsstring \<Rightarrow> jsstring option" where
  "num_frac s =
     (case s of
        [] \<Rightarrow> Some []
      | c # cs \<Rightarrow> if c = 0x2E then num_digits1 cs else Some s)"

definition num_exp :: "jsstring \<Rightarrow> jsstring option" where
  "num_exp s =
     (case s of
        [] \<Rightarrow> Some []
      | c # cs \<Rightarrow>
          if c = 0x65 \<or> c = 0x45 then
            (case cs of
               [] \<Rightarrow> None
             | g # r \<Rightarrow> if g = 0x2B \<or> g = 0x2D then num_digits1 r else num_digits1 cs)
          else Some s)"

definition json_number_ok :: "jsstring \<Rightarrow> bool" where
  "json_number_ok s =
     (let s1 = (case s of [] \<Rightarrow> [] | c # cs \<Rightarrow> if c = 0x2D then cs else s)
      in case num_int s1 of
           None \<Rightarrow> False
         | Some r1 \<Rightarrow>
             (case num_frac r1 of
                None \<Rightarrow> False
              | Some r2 \<Rightarrow>
                  (case num_exp r2 of None \<Rightarrow> False | Some r3 \<Rightarrow> r3 = [])))"

definition is_num_char :: "16 word \<Rightarrow> bool" where
  "is_num_char c =
     (is_digit c \<or> c = 0x2D \<or> c = 0x2B \<or> c = 0x2E \<or> c = 0x65 \<or> c = 0x45)"

lemma lex_string_shorter:
  "lex_string acc cs = Some (s, rest) \<Longrightarrow> length rest < Suc (length cs)"
proof (induction acc cs rule: lex_string.induct)
  case (1 acc)
  then show ?case by simp
next
  case (2 acc c cs)
  show ?case
  proof (cases "c = 0x22")
    case True
    with 2(3) show ?thesis by simp
  next
    case quote: False
    show ?thesis
    proof (cases "c = 0x5C")
      case True
      with quote 2(3) obtain u r where
        un: "unescape cs = Some (u, r)" and rec: "lex_string (u # acc) r = Some (s, rest)"
        by (auto split: option.splits)
      from 2(1) [OF quote True un refl rec] unescape_shorter [OF un]
      show ?thesis by simp
    next
      case False
      with quote 2(3) have "\<not> c < 0x20" and rec: "lex_string (c # acc) cs = Some (s, rest)"
        by (auto split: if_splits)
      from 2(2) [OF quote False this] show ?thesis by simp
    qed
  qed
qed

text \<open>
  The tokens of a text. White space (space, tab, line feed, carriage return) separates
  tokens. A number is the longest run of number characters, which must be a number of
  the grammar: whatever may follow a value (white space, a comma, a closing bracket,
  the end) is not a number character, so a run that is not a number is a syntax error
  however it is cut.
\<close>

function lex :: "jsstring \<Rightarrow> token list option" where
  "lex [] = Some []"
| "lex (c # cs) =
     (if is_ws c then lex cs
      else if c = 0x7B then map_option (Cons TLBrace) (lex cs)
      else if c = 0x7D then map_option (Cons TRBrace) (lex cs)
      else if c = 0x5B then map_option (Cons TLBracket) (lex cs)
      else if c = 0x5D then map_option (Cons TRBracket) (lex cs)
      else if c = 0x3A then map_option (Cons TColon) (lex cs)
      else if c = 0x2C then map_option (Cons TComma) (lex cs)
      else if c = 0x22 then
        (case lex_string [] cs of
           None \<Rightarrow> None
         | Some (s, rest) \<Rightarrow> map_option (Cons (TString s)) (lex rest))
      else if c = 0x2D \<or> is_digit c then
        (if json_number_ok (c # takeWhile is_num_char cs)
         then map_option (Cons (TNumber (c # takeWhile is_num_char cs)))
                (lex (dropWhile is_num_char cs))
         else None)
      else if take 4 (c # cs) = js ''true'' then map_option (Cons TTrue) (lex (drop 3 cs))
      else if take 5 (c # cs) = js ''false'' then map_option (Cons TFalse) (lex (drop 4 cs))
      else if take 4 (c # cs) = js ''null'' then map_option (Cons TNull) (lex (drop 3 cs))
      else None)"
  by pat_completeness auto
termination
proof (relation "measure length")
  fix c :: "16 word" and cs :: jsstring and x2 :: "jsstring \<times> jsstring" and s rest :: jsstring
  assume "lex_string [] cs = Some x2" and "(s, rest) = x2"
  then have "lex_string [] cs = Some (s, rest)" by simp
  from lex_string_shorter [OF this]
  show "(rest, c # cs) \<in> measure length" by simp
qed (auto simp: less_Suc_eq_le length_dropWhile_le)

text \<open>
  The parser is a pushdown automaton over the tokens. A frame is an open array with
  its elements so far, an open object with its members so far, or an open object whose
  next member has its name and waits for its value (lists are kept reversed).
\<close>

datatype frame =
    FArr "json list"
  | FObj "(jsstring \<times> json) list"
  | FObjKey "(jsstring \<times> json) list" jsstring

datatype expect =
    EValue
  | EValueOrClose
  | EKey
  | EKeyOrClose
  | EColon
  | EAfter
  | EDone json

text \<open>A finished value goes into the innermost open container, or is the result.\<close>

fun complete :: "json \<Rightarrow> frame list \<Rightarrow> (expect \<times> frame list) option" where
  "complete v [] = Some (EDone v, [])"
| "complete v (FArr vs # st) = Some (EAfter, FArr (v # vs) # st)"
| "complete v (FObjKey kvs k # st) = Some (EAfter, FObj ((k, v) # kvs) # st)"
| "complete v (FObj kvs # st) = None"

definition accepts_value :: "expect \<Rightarrow> bool" where
  "accepts_value e = (e = EValue \<or> e = EValueOrClose)"

fun pstep :: "expect \<Rightarrow> frame list \<Rightarrow> token \<Rightarrow> (expect \<times> frame list) option" where
  "pstep e st TLBracket =
     (if accepts_value e then Some (EValueOrClose, FArr [] # st) else None)"
| "pstep e st TLBrace =
     (if accepts_value e then Some (EKeyOrClose, FObj [] # st) else None)"
| "pstep e st (TString s) =
     (if accepts_value e then complete (JStr s) st
      else if e = EKey \<or> e = EKeyOrClose then
        (case st of FObj kvs # st' \<Rightarrow> Some (EColon, FObjKey kvs s # st') | _ \<Rightarrow> None)
      else None)"
| "pstep e st (TNumber n) = (if accepts_value e then complete (JNum n) st else None)"
| "pstep e st TTrue = (if accepts_value e then complete (JBool True) st else None)"
| "pstep e st TFalse = (if accepts_value e then complete (JBool False) st else None)"
| "pstep e st TNull = (if accepts_value e then complete JNull st else None)"
| "pstep e st TColon = (if e = EColon then Some (EValue, st) else None)"
| "pstep e st TComma =
     (if e = EAfter then
        (case st of
           FArr vs # st' \<Rightarrow> Some (EValue, st)
         | FObj kvs # st' \<Rightarrow> Some (EKey, st)
         | _ \<Rightarrow> None)
      else None)"
| "pstep e st TRBracket =
     (if e = EValueOrClose \<or> e = EAfter then
        (case st of FArr vs # st' \<Rightarrow> complete (JArr (rev vs)) st' | _ \<Rightarrow> None)
      else None)"
| "pstep e st TRBrace =
     (if e = EKeyOrClose \<or> e = EAfter then
        (case st of FObj kvs # st' \<Rightarrow> complete (JObj (rev kvs)) st' | _ \<Rightarrow> None)
      else None)"

fun parse_tokens :: "expect \<Rightarrow> frame list \<Rightarrow> token list \<Rightarrow> json option" where
  "parse_tokens e st [] = (case e of EDone v \<Rightarrow> Some v | _ \<Rightarrow> None)"
| "parse_tokens e st (t # ts) =
     (case pstep e st t of
        None \<Rightarrow> None
      | Some (e', st') \<Rightarrow> parse_tokens e' st' ts)"

text \<open>\<open>JSON.parse(text)\<close>: \<open>None\<close> is the SyntaxError.\<close>

definition JSON_parse :: "jsstring \<Rightarrow> json option" where
  "JSON_parse s = (case lex s of None \<Rightarrow> None | Some ts \<Rightarrow> parse_tokens EValue [] ts)"

section \<open>The platform and the libraries\<close>

text \<open>
  A thrown value: an Error object (what \<open>instanceof Error\<close> accepts) with its name and
  its message, or a value of another kind.
\<close>

datatype thrown = ErrorObj jsstring jsstring | NonError

text \<open>
  What the component takes from the JavaScript engine, the browser, the build and the
  zod library, and what this development leaves open, is a parameter:
  \<^item> \<open>zod_email\<close>: the test behind \<open>z.string().email()\<close> (a regular expression of zod);
  \<^item> \<open>JSON_stringify\<close>: \<open>JSON.stringify\<close> on a value that came from JSON;
  \<^item> \<open>ToString\<close>: the conversion of a value that is not a string to a string, as
    \<open>new Error(v)\<close> does it, which may throw a TypeError of its own;
  \<^item> \<open>number_is_zero\<close>: whether the double a number lexeme denotes is zero;
  \<^item> \<open>syntax_message\<close>, \<open>abort_message\<close>: the messages of the SyntaxError of
    \<open>response.json()\<close> and of the AbortError of an aborted \<open>fetch\<close>;
  \<^item> \<open>NEXT_PUBLIC_API_URL\<close>: the environment variable, when it is set;
  \<^item> \<open>timer_wins_tie\<close>: which task runs first when the network settles in the very
    millisecond the abort timer fires.
\<close>

record platform =
  zod_email :: "jsstring \<Rightarrow> bool"
  JSON_stringify :: "json \<Rightarrow> jsstring"
  ToString :: "json \<Rightarrow> thrown + jsstring"
  number_is_zero :: "jsstring \<Rightarrow> bool"
  syntax_message :: "jsstring \<Rightarrow> jsstring"
  abort_message :: jsstring
  NEXT_PUBLIC_API_URL :: "jsstring option"
  timer_wins_tie :: bool

text \<open>Truthiness of a JSON value; \<open>errorData.key\<close> on a value that is not null.\<close>

fun truthy :: "platform \<Rightarrow> json \<Rightarrow> bool" where
  "truthy pf JNull = False"
| "truthy pf (JBool b) = b"
| "truthy pf (JNum n) = (\<not> number_is_zero pf n)"
| "truthy pf (JStr s) = (s \<noteq> [])"
| "truthy pf (JArr vs) = True"
| "truthy pf (JObj kvs) = True"

fun get_prop :: "json \<Rightarrow> jsstring \<Rightarrow> json option" where
  "get_prop (JObj kvs) k = map_of (rev kvs) k"
| "get_prop v k = None"

text \<open>\<open>a || b\<close> where \<open>a\<close> may be undefined (\<open>None\<close>).\<close>

definition js_or :: "platform \<Rightarrow> json option \<Rightarrow> json \<Rightarrow> json" where
  "js_or pf a b = (case a of None \<Rightarrow> b | Some v \<Rightarrow> if truthy pf v then v else b)"

section \<open>The data of the form\<close>

record form_values =
  firstName :: jsstring
  lastName :: jsstring
  email :: jsstring
  phone :: jsstring
  address :: jsstring

datatype field = FirstName | LastName | Email | Phone | Address

record jsfile =
  file_name :: jsstring
  file_size :: nat
  file_type :: jsstring

text \<open>
  The props as the caller gives them (\<open>None\<close>: left out), and as the component reads
  them after the defaults of its parameter list: \<open>clientEmail = ''\<close>, \<open>token = ''\<close>,
  \<open>missingFields = []\<close>.
\<close>

record raw_props =
  raw_clientEmail :: "jsstring option"
  raw_token :: "jsstring option"
  raw_missingFields :: "jsstring list option"

record props =
  clientEmail :: jsstring
  token :: jsstring
  missingFields :: "jsstring list"

definition AttractiveForm_props :: "raw_props \<Rightarrow> props" where
  "AttractiveForm_props rp =
     \<lparr>clientEmail = (case raw_clientEmail rp of None \<Rightarrow> [] | Some e \<Rightarrow> e),
      token = (case raw_token rp of None \<Rightarrow> [] | Some t \<Rightarrow> t),
      missingFields = (case raw_missingFields rp of None \<Rightarrow> [] | Some m \<Rightarrow> m)\<rparr>"

text \<open>A call of \<open>toast.loading\<close>, \<open>.success\<close>, \<open>.error\<close> or \<open>.info\<close>, in the order made.
  The id of a toast is its position in the log; \<open>toast_replaces\<close> is the \<open>id\<close> option.\<close>

datatype toast_kind = ToastLoading | ToastSuccess | ToastError | ToastInfo

record toast =
  toast_kind :: toast_kind
  toast_title :: jsstring
  toast_description :: "jsstring option"
  toast_replaces :: "nat option"
  toast_duration :: "nat option"

text \<open>The multipart payload and the request handed to \<open>fetch\<close>. \<open>req_timeout\<close> is the
  delay of the timer that aborts the request's signal; \<open>req_aborted\<close> says that the
  timer fired while the request was in flight.\<close>

datatype form_entry = TextEntry jsstring | FileEntry jsfile

record request =
  req_method :: jsstring
  req_url :: jsstring
  req_body :: "(jsstring \<times> form_entry) list"
  req_timeout :: nat
  req_aborted :: bool

text \<open>
  The response: its status and what reading its body gives: the text, a rejection
  (\<open>Inl\<close>), or nothing ever (\<open>None\<close>: the body does not arrive and the read stays
  pending). The network either settles the request after so many milliseconds, with a
  response or a rejection, or never does.
\<close>

record response =
  resp_status :: nat
  resp_body :: "(thrown + jsstring) option"

datatype fetch_result = Resolves response | Rejects thrown

datatype network = Settles nat fetch_result | Never

text \<open>
  The state of the component: its five \<open>useState\<close> cells, the values and errors the
  form library holds, the files of the input element \<open>file-upload\<close>, and the log of what
  it did to the outside (toasts, requests, the scheduled redirect with its delay).
  What it writes to the console is left out.
\<close>

record state =
  isSubmitting :: bool
  selectedFile :: "jsfile option"
  isEmailPreFilled :: bool
  isTokenValid :: "bool option"
  isClient :: bool
  formValues :: form_values
  formErrors :: "(field \<times> jsstring) list"
  fileInput :: "jsfile list"
  toasts :: "toast list"
  requests :: "request list"
  redirect :: "(nat \<times> jsstring) option"

definition empty_values :: form_values where
  "empty_values = \<lparr>firstName = [], lastName = [], email = [], phone = [], address = []\<rparr>"

definition initial_state :: state where
  "initial_state =
     \<lparr>isSubmitting = False, selectedFile = None, isEmailPreFilled = False,
      isTokenValid = None, isClient = False, formValues = empty_values,
      formErrors = [], fileInput = [], toasts = [], requests = [], redirect = None\<rparr>"

section \<open>Validation\<close>

text \<open>\<open>formSchema\<close>: the issues of a record, in the order of the schema's keys.\<close>

definition formSchema :: "platform \<Rightarrow> form_values \<Rightarrow> (field \<times> jsstring) list" where
  "formSchema pf v =
     (if length (firstName v) < 2
      then [(FirstName, js ''Der Vorname muss mindestens 2 Zeichen lang sein.'')] else []) @
     (if length (lastName v) < 2
      then [(LastName, js ''Der Nachname muss mindestens 2 Zeichen lang sein.'')] else []) @
     (if zod_email pf (email v) then []
      else [(Email, js ''Bitte geben Sie eine g'' @ [0xFC] @ js ''ltige E-Mail-Adresse ein.'')]) @
     (if length (phone v) < 10
      then [(Phone, js ''Die Telefonnummer muss mindestens 10 Ziffern haben.'')] else []) @
     (if length (address v) < 5
      then [(Address, js ''Die Adresse muss mindestens 5 Zeichen lang sein.'')] else [])"

section \<open>The mount effects and field updates\<close>

text \<open>
  One pass of the three effects. Each reads \<open>isClient\<close> as the render it belongs to saw
  it: the first sets it; the second fills the email in from \<open>clientEmail\<close>; the third is
  the token validation, which sets the token valid without looking at it.
\<close>

definition run_effects :: "props \<Rightarrow> state \<Rightarrow> state" where
  "run_effects p st =
     (let st1 = st\<lparr>isClient := True\<rparr>;
          st2 = (if isClient st \<and> clientEmail p \<noteq> []
                 then st1\<lparr>formValues := (formValues st1)\<lparr>email := clientEmail p\<rparr>,
                          isEmailPreFilled := True\<rparr>
                 else st1)
      in if \<not> isClient st then st2 else st2\<lparr>isTokenValid := Some True\<rparr>)"

fun set_field :: "field \<Rightarrow> jsstring \<Rightarrow> form_values \<Rightarrow> form_values" where
  "set_field FirstName x v = v\<lparr>firstName := x\<rparr>"
| "set_field LastName x v = v\<lparr>lastName := x\<rparr>"
| "set_field Email x v = v\<lparr>email := x\<rparr>"
| "set_field Phone x v = v\<lparr>phone := x\<rparr>"
| "set_field Address x v = v\<lparr>address := x\<rparr>"

text \<open>Typing into a field: the \<open>onChange\<close> the form library binds to each input.\<close>

definition updateField :: "field \<Rightarrow> jsstring \<Rightarrow> state \<Rightarrow> state" where
  "updateField f x st = st\<lparr>formValues := set_field f x (formValues st)\<rparr>"

section \<open>The attachment\<close>

definition allowedTypes :: "jsstring list" where
  "allowedTypes =
     [js ''application/pdf'',
      js ''application/msword'',
      js ''application/vnd.openxmlformats-officedocument.wordprocessingml.document'',
      js ''text/plain'',
      js ''image/jpeg'',
      js ''image/png'']"

definition maxSize :: nat where
  "maxSize = 10 * 1024 * 1024"

definition add_toast :: "toast \<Rightarrow> state \<Rightarrow> state" where
  "add_toast t st = st\<lparr>toasts := toasts st @ [t]\<rparr>"

text \<open>
  \<open>handleFileChange\<close> reads the first file of the input element. A rejected file is
  answered by an error toast and the input is emptied; the selected file stays.
\<close>

definition handleFileChange :: "state \<Rightarrow> state" where
  "handleFileChange st =
     (case fileInput st of
        [] \<Rightarrow> st
      | file # others \<Rightarrow>
          if file_type file \<notin> set allowedTypes then
            (add_toast
               \<lparr>toast_kind = ToastError,
                toast_title = js ''Ung'' @ [0xFC] @ js ''ltiger Dateityp'',
                toast_description =
                  Some (js ''Bitte laden Sie nur PDF, DOC, DOCX, TXT, JPG oder PNG Dateien hoch.''),
                toast_replaces = None, toast_duration = Some 5000\<rparr> st)
            \<lparr>fileInput := []\<rparr>
          else if file_size file > maxSize then
            (add_toast
               \<lparr>toast_kind = ToastError,
                toast_title = js ''Datei zu gro'' @ [0xDF],
                toast_description =
                  Some (js ''Bitte laden Sie Dateien kleiner als 10MB hoch.''),
                toast_replaces = None, toast_duration = Some 5000\<rparr> st)
            \<lparr>fileInput := []\<rparr>
          else
            add_toast
              \<lparr>toast_kind = ToastInfo,
               toast_title = js ''Datei ausgew'' @ [0xE4] @ js ''hlt'',
               toast_description =
                 Some (file_name file @ js '' wurde zum Hochladen ausgew'' @ [0xE4] @ js ''hlt.''),
               toast_replaces = None, toast_duration = Some 3000\<rparr>
              (st\<lparr>selectedFile := Some file\<rparr>))"

text \<open>The user picks files in the input element, whose change event runs the handler.\<close>

definition selectAttachment :: "jsfile list \<Rightarrow> state \<Rightarrow> state" where
  "selectAttachment files st = handleFileChange (st\<lparr>fileInput := files\<rparr>)"

definition handleRemoveFile :: "state \<Rightarrow> state" where
  "handleRemoveFile st =
     (let st1 =
        (case selectedFile st of
           None \<Rightarrow> st
         | Some f \<Rightarrow>
             add_toast
               \<lparr>toast_kind = ToastInfo,
                toast_title = js ''Datei entfernt'',
                toast_description = Some (file_name f @ js '' wurde entfernt.''),
                toast_replaces = None, toast_duration = Some 3000\<rparr> st)
      in st1\<lparr>selectedFile := None, fileInput := []\<rparr>)"

section \<open>Submission\<close>

subsection \<open>The messages\<close>

definition msg_generic :: jsstring where
  "msg_generic = js ''Bitte versuchen Sie es sp'' @ [0xE4] @ js ''ter erneut.''"

definition msg_timeout :: jsstring where
  "msg_timeout =
     js ''Die Verbindung zum Server hat zu lange gedauert. Bitte '' @ [0xFC] @ js ''berpr'' @
     [0xFC] @ js ''fen Sie Ihre Internetverbindung und versuchen Sie es erneut.''"

definition msg_network :: jsstring where
  "msg_network =
     js ''Verbindung zum Server fehlgeschlagen. Bitte stellen Sie sicher, dass der Server l'' @
     [0xE4] @ js ''uft.''"

definition msg_expired :: jsstring where
  "msg_expired =
     js ''Dieser Formular-Link ist abgelaufen. Bitte fordern Sie einen neuen Link an.''"

definition default_error_message :: "nat \<Rightarrow> jsstring" where
  "default_error_message status = js ''Server error! Status: '' @ decimal status"

subsection \<open>The message of a response that is not ok\<close>

definition response_ok :: "response \<Rightarrow> bool" where
  "response_ok r = (200 \<le> resp_status r \<and> resp_status r \<le> 299)"

text \<open>
  The value of \<open>errorMessage\<close> when the block \<open>if (!response.ok)\<close> throws, from the
  status and the settled read of the body. A body that cannot be read is only logged.
  Reading \<open>detail\<close> of \<open>null\<close> throws inside the inner \<open>try\<close>, whose \<open>catch\<close> takes the
  raw text, as it does for a text that is not JSON.
\<close>

definition server_error_value :: "platform \<Rightarrow> nat \<Rightarrow> thrown + jsstring \<Rightarrow> json" where
  "server_error_value pf status body =
     (case body of
        Inl e \<Rightarrow> JStr (default_error_message status)
      | Inr errorText \<Rightarrow>
          if errorText = [] then JStr (default_error_message status)
          else
            (case JSON_parse (strip_quotes errorText) of
               None \<Rightarrow> JStr errorText
             | Some JNull \<Rightarrow> JStr errorText
             | Some errorData \<Rightarrow>
                 js_or pf (get_prop errorData (js ''detail''))
                   (js_or pf (get_prop errorData (js ''message''))
                      (JStr (JSON_stringify pf errorData)))))"

text \<open>\<open>throw new Error(v)\<close>: the Error with the message \<open>v\<close> as a string, or what the
  conversion of \<open>v\<close> throws.\<close>

definition new_Error :: "platform \<Rightarrow> json \<Rightarrow> thrown" where
  "new_Error pf v =
     (case v of
        JStr s \<Rightarrow> ErrorObj (js ''Error'') s
      | _ \<Rightarrow> (case ToString pf v of Inl e \<Rightarrow> e | Inr s \<Rightarrow> ErrorObj (js ''Error'') s))"

text \<open>\<open>response.json()\<close> on a settled read: the body parsed, or what it throws.\<close>

definition response_json :: "platform \<Rightarrow> thrown + jsstring \<Rightarrow> thrown + json" where
  "response_json pf body =
     (case body of
        Inl e \<Rightarrow> Inl e
      | Inr t \<Rightarrow>
          (case JSON_parse t of
             None \<Rightarrow> Inl (ErrorObj (js ''SyntaxError'') (syntax_message pf t))
           | Some v \<Rightarrow> Inr v))"

text \<open>The description of the error toast, chosen in the \<open>catch\<close> block.\<close>

definition error_description :: "thrown \<Rightarrow> jsstring" where
  "error_description e =
     (case e of
        NonError \<Rightarrow> msg_generic
      | ErrorObj name message \<Rightarrow>
          if name = js ''AbortError'' then msg_timeout
          else if js_includes message (js ''Failed to fetch'') then msg_network
          else if js_includes message (js ''Invalid or expired token'') then msg_expired
          else message)"

subsection \<open>The request\<close>

definition api_endpoint :: "platform \<Rightarrow> jsstring" where
  "api_endpoint pf =
     (case NEXT_PUBLIC_API_URL pf of
        None \<Rightarrow> js ''http://37.120.176:8005''
      | Some u \<Rightarrow> if u \<noteq> [] then u else js ''http://37.120.176:8005'') @
     js ''/api/client/submit-missing-info''"

text \<open>The entries of the \<open>FormData\<close>: the fields in the order of the schema, then the
  token, the missing fields and the file, each only when it is there.\<close>

definition build_formData ::
  "platform \<Rightarrow> props \<Rightarrow> form_values \<Rightarrow> state \<Rightarrow> (jsstring \<times> form_entry) list" where
  "build_formData pf p data st =
     [(js ''firstName'', TextEntry (firstName data)),
      (js ''lastName'', TextEntry (lastName data)),
      (js ''email'', TextEntry (email data)),
      (js ''phone'', TextEntry (phone data)),
      (js ''address'', TextEntry (address data))] @
     (if token p \<noteq> [] then [(js ''token'', TextEntry (token p))] else []) @
     (if length (missingFields p) > 0
      then [(js ''missingFields'',
             TextEntry (JSON_stringify pf (JArr (map JStr (missingFields p)))))]
      else []) @
     (case selectedFile st of
        None \<Rightarrow> []
      | Some f \<Rightarrow> [(js ''document'', FileEntry f)])"

text \<open>
  \<open>fetch\<close> with the abort timer: what the \<open>await\<close> gives, and whether the timer aborted
  the request. The timer fires \<open>ms\<close> milliseconds after the request; a network that has
  not settled by then loses to it.
\<close>

definition fetch_with_timer :: "platform \<Rightarrow> nat \<Rightarrow> network \<Rightarrow> fetch_result \<times> bool" where
  "fetch_with_timer pf ms net =
     (case net of
        Never \<Rightarrow> (Rejects (ErrorObj (js ''AbortError'') (abort_message pf)), True)
      | Settles t r \<Rightarrow>
          if t < ms \<or> (t = ms \<and> \<not> timer_wins_tie pf) then (r, False)
          else (Rejects (ErrorObj (js ''AbortError'') (abort_message pf)), True))"

subsection \<open>\<open>onSubmit\<close>\<close>

text \<open>
  How the \<open>try\<close> block ends: it returns, it throws, or it stays pending on a read of
  the body that never settles. The abort timer is cleared as soon as \<open>fetch\<close> has
  resolved, so it does not end such a read.
\<close>

datatype try_result = Returned | Threw thrown | Pending

text \<open>The \<open>try\<close> block: how it ends and the state it leaves.\<close>

definition submit_try ::
  "platform \<Rightarrow> props \<Rightarrow> network \<Rightarrow> form_values \<Rightarrow> nat \<Rightarrow> state \<Rightarrow> try_result \<times> state" where
  "submit_try pf p net data toastId st =
     (let formData = build_formData pf p data st;
          (res, aborted) = fetch_with_timer pf 30000 net;
          st1 = st\<lparr>requests := requests st @
                  [\<lparr>req_method = js ''POST'', req_url = api_endpoint pf,
                    req_body = formData, req_timeout = 30000, req_aborted = aborted\<rparr>]\<rparr>
      in case res of
           Rejects e \<Rightarrow> (Threw e, st1)
         | Resolves r \<Rightarrow>
             if \<not> response_ok r then
               (case resp_body r of
                  None \<Rightarrow> (Pending, st1)
                | Some body \<Rightarrow>
                    (Threw (new_Error pf (server_error_value pf (resp_status r) body)), st1))
             else
               (case resp_body r of
                  None \<Rightarrow> (Pending, st1)
                | Some body \<Rightarrow>
                    (case response_json pf body of
                       Inl e \<Rightarrow> (Threw e, st1)
                     | Inr result \<Rightarrow>
                         (Returned,
                          (add_toast
                             \<lparr>toast_kind = ToastSuccess,
                              toast_title = js ''Erfolgreich '' @ [0xFC] @ js ''bermittelt!'',
                              toast_description =
                                Some (js ''Vielen Dank! Ihre Informationen wurden gespeichert.''),
                              toast_replaces = Some toastId, toast_duration = Some 5000\<rparr> st1)
                          \<lparr>formValues :=
                             \<lparr>firstName = [], lastName = [],
                              email = (if clientEmail p \<noteq> [] then clientEmail p else []),
                              phone = [], address = []\<rparr>,
                           formErrors := [],
                           selectedFile := None,
                           fileInput := [],
                           redirect := Some (2000, js ''/success'')\<rparr>))))"

definition submit_catch :: "nat \<Rightarrow> thrown \<Rightarrow> state \<Rightarrow> state" where
  "submit_catch toastId e st =
     add_toast
       \<lparr>toast_kind = ToastError,
        toast_title = [0xDC] @ js ''bermittlung fehlgeschlagen'',
        toast_description = Some (error_description e),
        toast_replaces = Some toastId, toast_duration = Some 7000\<rparr> st"

text \<open>The gate at the head of \<open>onSubmit\<close>: \<open>token && isTokenValid === false\<close>.\<close>

definition token_rejected :: "props \<Rightarrow> state \<Rightarrow> bool" where
  "token_rejected p st = (token p \<noteq> [] \<and> isTokenValid st = Some False)"

text \<open>
  \<open>onSubmit\<close>: the state when it has returned or, when the \<open>try\<close> block stays pending,
  the state it waits in (the \<open>finally\<close> block has not run then).
\<close>

definition onSubmit :: "platform \<Rightarrow> props \<Rightarrow> network \<Rightarrow> form_values \<Rightarrow> state \<Rightarrow> state" where
  "onSubmit pf p net data st =
     (if token_rejected p st then
        add_toast
          \<lparr>toast_kind = ToastError,
           toast_title = js ''Ung'' @ [0xFC] @ js ''ltiger Link'',
           toast_description =
             Some (js ''Dieser Formular-Link ist abgelaufen oder ung'' @ [0xFC] @ js ''ltig.''),
           toast_replaces = None, toast_duration = Some 5000\<rparr> st
      else
        (let st1 = st\<lparr>isSubmitting := True\<rparr>;
             toastId = length (toasts st1);
             st2 = add_toast
                     \<lparr>toast_kind = ToastLoading,
                      toast_title = js ''Ihre Informationen werden verarbeitet...'',
                      toast_description = None,
                      toast_replaces = None, toast_duration = None\<rparr> st1
         in case submit_try pf p net data toastId st2 of
              (Returned, s) \<Rightarrow> s\<lparr>isSubmitting := False\<rparr>
            | (Threw e, s) \<Rightarrow> (submit_catch toastId e s)\<lparr>isSubmitting := False\<rparr>
            | (Pending, s) \<Rightarrow> s))"

text \<open>
  \<open>form.handleSubmit(onSubmit)\<close> with the zod resolver: the values of the form are
  checked against the schema; with an issue they become the errors of the form and
  \<open>onSubmit\<close> is not called, without one \<open>onSubmit\<close> gets the values.
\<close>

definition handleSubmit :: "platform \<Rightarrow> props \<Rightarrow> network \<Rightarrow> state \<Rightarrow> state" where
  "handleSubmit pf p net st =
     (let issues = formSchema pf (formValues st)
      in if issues = [] then onSubmit pf p net (formValues st) (st\<lparr>formErrors := []\<rparr>)
         else st\<lparr>formErrors := issues\<rparr>)"

text \<open>The submit button is disabled by \<open>isSubmitDisabled\<close>.\<close>

definition isSubmitDisabled :: "props \<Rightarrow> state \<Rightarrow> bool" where
  "isSubmitDisabled p st = (isSubmitting st \<or> (token p \<noteq> [] \<and> isTokenValid st = Some False))"

subsection \<open>The parts of \<open>onSubmit\<close>, named\<close>

text \<open>
  How the \<open>try\<close> block ends, whether \<open>onSubmit\<close> completes, the request it hands to
  \<open>fetch\<close> and the state after the loading toast, each as a function of the inputs:
  the lemmas below state \<open>onSubmit\<close> through them.
\<close>

definition submit_result :: "platform \<Rightarrow> network \<Rightarrow> try_result" where
  "submit_result pf net =
     (case fst (fetch_with_timer pf 30000 net) of
        Rejects e \<Rightarrow> Threw e
      | Resolves r \<Rightarrow>
          (case resp_body r of
             None \<Rightarrow> Pending
           | Some body \<Rightarrow>
               if \<not> response_ok r
               then Threw (new_Error pf (server_error_value pf (resp_status r) body))
               else (case response_json pf body of Inl e \<Rightarrow> Threw e | Inr v \<Rightarrow> Returned)))"

definition submit_completes :: "platform \<Rightarrow> network \<Rightarrow> bool" where
  "submit_completes pf net =
     (case fst (fetch_with_timer pf 30000 net) of
        Rejects e \<Rightarrow> True
      | Resolves r \<Rightarrow> resp_body r \<noteq> None)"

definition sent_request :: "platform \<Rightarrow> props \<Rightarrow> network \<Rightarrow> form_values \<Rightarrow> state \<Rightarrow> request" where
  "sent_request pf p net data st =
     \<lparr>req_method = js ''POST'', req_url = api_endpoint pf,
      req_body = build_formData pf p data st, req_timeout = 30000,
      req_aborted = snd (fetch_with_timer pf 30000 net)\<rparr>"

definition begin_submit :: "state \<Rightarrow> state" where
  "begin_submit st =
     add_toast
       \<lparr>toast_kind = ToastLoading,
        toast_title = js ''Ihre Informationen werden verarbeitet...'',
        toast_description = None,
        toast_replaces = None, toast_duration = None\<rparr> (st\<lparr>isSubmitting := True\<rparr>)"

section \<open>Runs of the component\<close>

text \<open>
  What can happen to the mounted component: a pass of the effects, and the actions of
  the user. Every control of the form is disabled while \<open>isSubmitting\<close> holds, the
  submit button by \<open>isSubmitDisabled\<close>, and the email input is read-only once the email
  is filled in from the prop; an action on such a control does nothing. A pass of the
  effects is allowed at any time, though React runs the second and third effect only
  after \<open>isClient\<close> has changed: the runs here include those of the component.
\<close>

datatype action =
    Effects
  | UpdateField field jsstring
  | SelectAttachment "jsfile list"
  | RemoveAttachment
  | Submit network

fun step :: "platform \<Rightarrow> props \<Rightarrow> action \<Rightarrow> state \<Rightarrow> state" where
  "step pf p Effects st = run_effects p st"
| "step pf p (UpdateField f x) st =
     (if isSubmitting st \<or> (f = Email \<and> isEmailPreFilled st) then st
      else updateField f x st)"
| "step pf p (SelectAttachment files) st =
     (if isSubmitting st then st else selectAttachment files st)"
| "step pf p RemoveAttachment st = (if isSubmitting st then st else handleRemoveFile st)"
| "step pf p (Submit net) st = (if isSubmitDisabled p st then st else handleSubmit pf p net st)"

fun run :: "platform \<Rightarrow> props \<Rightarrow> action list \<Rightarrow> state \<Rightarrow> state" where
  "run pf p [] st = st"
| "run pf p (a # as) st = run pf p as (step pf p a st)"

text \<open>The surfaced message: the description of the last error toast.\<close>

definition surfaced_error :: "state \<Rightarrow> jsstring option" where
  "surfaced_error st =
     (let errors = filter (\<lambda>t. toast_kind t = ToastError) (toasts st)
      in if errors = [] then None else toast_description (last errors))"

section \<open>Example inputs\<close>

text \<open>
  Inputs for the examples. \<open>demo_platform\<close> only stands in for the engine: its email
  test asks for an \<open>@\<close>, its conversions return fixed strings. The theorems hold for
  every platform; the examples evaluate them on this one.
\<close>

definition demo_platform :: platform where
  "demo_platform =
     \<lparr>zod_email = (\<lambda>s. 0x40 \<in> set s),
      JSON_stringify = (\<lambda>v. js ''[json]''),
      ToString = (\<lambda>v. Inr (js ''[value]'')),
      number_is_zero = (\<lambda>n. n = js ''0''),
      syntax_message = (\<lambda>t. js ''Unexpected end of JSON input''),
      abort_message = js ''signal is aborted without reason'',
      NEXT_PUBLIC_API_URL = None,
      timer_wins_tie = True\<rparr>"

definition demo_props :: props where
  "demo_props =
     \<lparr>clientEmail = js ''anna@example.com'', token = js ''tok123'',
      missingFields = [js ''firstName'', js ''lastName'', js ''phone'', js ''address'']\<rparr>"

definition demo_values :: form_values where
  "demo_values =
     \<lparr>firstName = js ''Anna'', lastName = js ''Muster'', email = js ''anna@example.com'',
      phone = js ''+43123456789'', address = js ''Hauptplatz 1''\<rparr>"

definition demo_pdf :: jsfile where
  "demo_pdf = \<lparr>file_name = js ''scan.pdf'', file_size = 52341, file_type = js ''application/pdf''\<rparr>"

definition demo_exe :: jsfile where
  "demo_exe =
     \<lparr>file_name = js ''setup.exe'', file_size = 1024,
      file_type = js ''application/x-msdownload''\<rparr>"

definition demo_big :: jsfile where
  "demo_big = \<lparr>file_name = js ''photo.png'', file_size = 10485761, file_type = js ''image/png''\<rparr>"

section \<open>The outcomes of \<open>onSubmit\<close>\<close>

lemma submit_try_result: "fst (submit_try pf p net data tid st) = submit_result pf net"
  by (simp add: submit_try_def submit_result_def Let_def
      split: prod.splits fetch_result.splits sum.splits option.splits)

lemma submit_result_pending: "(submit_result pf net = Pending) = (\<not> submit_completes pf net)"
  by (simp add: submit_result_def submit_completes_def
      split: fetch_result.splits sum.splits option.splits)

lemma onSubmit_rejected:
  "token_rejected p st \<Longrightarrow>
   onSubmit pf p net data st =
     add_toast
       \<lparr>toast_kind = ToastError,
        toast_title = js ''Ung'' @ [0xFC] @ js ''ltiger Link'',
        toast_description =
          Some (js ''Dieser Formular-Link ist abgelaufen oder ung'' @ [0xFC] @ js ''ltig.''),
        toast_replaces = None, toast_duration = Some 5000\<rparr> st"
  by (simp add: onSubmit_def)

lemma onSubmit_not_rejected:
  "\<not> token_rejected p st \<Longrightarrow>
   onSubmit pf p net data st =
     (case submit_result pf net of
        Returned \<Rightarrow>
          (snd (submit_try pf p net data (length (toasts st)) (begin_submit st)))
          \<lparr>isSubmitting := False\<rparr>
      | Threw e \<Rightarrow>
          (submit_catch (length (toasts st)) e
             (snd (submit_try pf p net data (length (toasts st)) (begin_submit st))))
          \<lparr>isSubmitting := False\<rparr>
      | Pending \<Rightarrow> snd (submit_try pf p net data (length (toasts st)) (begin_submit st)))"
  unfolding onSubmit_def Let_def begin_submit_def [symmetric]
  using submit_try_result [of pf p net data "length (toasts st)" "begin_submit st"]
  by (simp add: case_prod_beta split: try_result.splits)

lemma submit_try_other_state:
  "submit_result pf net \<noteq> Returned \<Longrightarrow>
   snd (submit_try pf p net data tid st) =
     st\<lparr>requests := requests st @ [sent_request pf p net data st]\<rparr>"
  by (auto simp: submit_try_def submit_result_def sent_request_def Let_def
      split: prod.splits fetch_result.splits sum.splits option.splits if_splits)

lemma submit_try_success_state:
  "submit_result pf net = Returned \<Longrightarrow>
   snd (submit_try pf p net data tid st) =
     (add_toast
        \<lparr>toast_kind = ToastSuccess,
         toast_title = js ''Erfolgreich '' @ [0xFC] @ js ''bermittelt!'',
         toast_description = Some (js ''Vielen Dank! Ihre Informationen wurden gespeichert.''),
         toast_replaces = Some tid, toast_duration = Some 5000\<rparr>
        (st\<lparr>requests := requests st @ [sent_request pf p net data st]\<rparr>))
     \<lparr>formValues :=
        \<lparr>firstName = [], lastName = [], email = clientEmail p, phone = [], address = []\<rparr>,
      formErrors := [],
      selectedFile := None,
      fileInput := [],
      redirect := Some (2000, js ''/success'')\<rparr>"
  by (auto simp: submit_try_def submit_result_def sent_request_def Let_def
      split: prod.splits fetch_result.splits sum.splits option.splits if_splits)

text \<open>The three ways past the gate: a failure, a success, a read that never settles.\<close>

lemma onSubmit_failure:
  assumes "\<not> token_rejected p st" and "submit_result pf net = Threw e"
  shows "onSubmit pf p net data st =
     st\<lparr>requests := requests st @ [sent_request pf p net data st],
        toasts := toasts st @
          [\<lparr>toast_kind = ToastLoading,
            toast_title = js ''Ihre Informationen werden verarbeitet...'',
            toast_description = None,
            toast_replaces = None, toast_duration = None\<rparr>,
           \<lparr>toast_kind = ToastError,
            toast_title = [0xDC] @ js ''bermittlung fehlgeschlagen'',
            toast_description = Some (error_description e),
            toast_replaces = Some (length (toasts st)), toast_duration = Some 7000\<rparr>],
        isSubmitting := False\<rparr>"
  using assms
  by (simp add: onSubmit_not_rejected submit_try_other_state submit_catch_def begin_submit_def
      add_toast_def sent_request_def build_formData_def)

lemma onSubmit_success:
  assumes "\<not> token_rejected p st" and "submit_result pf net = Returned"
  shows "onSubmit pf p net data st =
     st\<lparr>requests := requests st @ [sent_request pf p net data st],
        toasts := toasts st @
          [\<lparr>toast_kind = ToastLoading,
            toast_title = js ''Ihre Informationen werden verarbeitet...'',
            toast_description = None,
            toast_replaces = None, toast_duration = None\<rparr>,
           \<lparr>toast_kind = ToastSuccess,
            toast_title = js ''Erfolgreich '' @ [0xFC] @ js ''bermittelt!'',
            toast_description = Some (js ''Vielen Dank! Ihre Informationen wurden gespeichert.''),
            toast_replaces = Some (length (toasts st)), toast_duration = Some 5000\<rparr>],
        formValues :=
          \<lparr>firstName = [], lastName = [], email = clientEmail p, phone = [], address = []\<rparr>,
        formErrors := [],
        selectedFile := None,
        fileInput := [],
        redirect := Some (2000, js ''/success''),
        isSubmitting := False\<rparr>"
  using assms
  by (simp add: onSubmit_not_rejected submit_try_success_state begin_submit_def
      add_toast_def sent_request_def build_formData_def)

lemma onSubmit_pending:
  assumes "\<not> token_rejected p st" and "submit_result pf net = Pending"
  shows "onSubmit pf p net data st =
     st\<lparr>requests := requests st @ [sent_request pf p net data st],
        toasts := toasts st @
          [\<lparr>toast_kind = ToastLoading,
            toast_title = js ''Ihre Informationen werden verarbeitet...'',
            toast_description = None,
            toast_replaces = None, toast_duration = None\<rparr>],
        isSubmitting := True\<rparr>"
  using assms
  by (simp add: onSubmit_not_rejected submit_try_other_state begin_submit_def
      add_toast_def sent_request_def build_formData_def)

lemma onSubmit_cases:
  obtains (rejected) "token_rejected p st"
  | (failure) e where "\<not> token_rejected p st" and "submit_result pf net = Threw e"
  | (success) "\<not> token_rejected p st" and "submit_result pf net = Returned"
  | (pending) "\<not> token_rejected p st" and "submit_result pf net = Pending"
  by (cases "submit_result pf net") auto

lemma onSubmit_isTokenValid: "isTokenValid (onSubmit pf p net data st) = isTokenValid st"
  by (rule onSubmit_cases [where p = p and st = st and pf = pf and net = net])
    (simp_all add: onSubmit_rejected onSubmit_failure onSubmit_success onSubmit_pending
      add_toast_def)

lemma onSubmit_isSubmitting:
  "isSubmitting (onSubmit pf p net data st) =
     (if token_rejected p st then isSubmitting st else \<not> submit_completes pf net)"
  by (rule onSubmit_cases [where p = p and st = st and pf = pf and net = net])
    (simp_all add: onSubmit_rejected onSubmit_failure onSubmit_success onSubmit_pending
      add_toast_def submit_result_pending [symmetric])

lemma onSubmit_selectedFile:
  "selectedFile (onSubmit pf p net data st) = None \<and> fileInput (onSubmit pf p net data st) = [] \<or>
   selectedFile (onSubmit pf p net data st) = selectedFile st \<and>
   fileInput (onSubmit pf p net data st) = fileInput st"
  by (rule onSubmit_cases [where p = p and st = st and pf = pf and net = net])
    (simp_all add: onSubmit_rejected onSubmit_failure onSubmit_success onSubmit_pending
      add_toast_def)

lemma onSubmit_requests:
  "\<not> token_rejected p st \<Longrightarrow>
   requests (onSubmit pf p net data st) = requests st @ [sent_request pf p net data st]"
  by (rule onSubmit_cases [where p = p and st = st and pf = pf and net = net])
    (simp_all add: onSubmit_failure onSubmit_success onSubmit_pending)

lemma handleSubmit_invalid:
  "formSchema pf (formValues st) \<noteq> [] \<Longrightarrow>
   handleSubmit pf p net st = st\<lparr>formErrors := formSchema pf (formValues st)\<rparr>"
  by (simp add: handleSubmit_def Let_def)

lemma handleSubmit_valid:
  "formSchema pf (formValues st) = [] \<Longrightarrow>
   handleSubmit pf p net st = onSubmit pf p net (formValues st) (st\<lparr>formErrors := []\<rparr>)"
  by (simp add: handleSubmit_def Let_def)


lemma surfaced_error_failure:
  assumes "\<not> token_rejected p st" and "submit_result pf net = Threw e"
  shows "surfaced_error (onSubmit pf p net data st) = Some (error_description e)"
  using assms by (simp add: onSubmit_failure surfaced_error_def)

section \<open>Invariants of runs\<close>

lemma run_invariant:
  assumes "\<And>a s. I s \<Longrightarrow> I (step pf p a s)" and "I st"
  shows "I (run pf p as st)"
  using assms(2) by (induction as arbitrary: st) (auto intro: assms(1))

text \<open>When no file is selected, the input element holds none either.\<close>

definition input_follows :: "state \<Rightarrow> bool" where
  "input_follows st = (selectedFile st = None \<longrightarrow> fileInput st = [])"

lemma handleSubmit_input_follows:
  assumes "input_follows st"
  shows "input_follows (handleSubmit pf p net st)"
proof (cases "formSchema pf (formValues st) = []")
  case True
  with assms onSubmit_selectedFile [of pf p net "formValues st" "st\<lparr>formErrors := []\<rparr>"]
  show ?thesis by (auto simp: handleSubmit_valid input_follows_def)
next
  case False
  with assms show ?thesis by (simp add: handleSubmit_invalid input_follows_def)
qed

lemma step_input_follows:
  assumes "input_follows st"
  shows "input_follows (step pf p a st)"
proof (cases a)
  case Effects
  with assms show ?thesis by (auto simp: input_follows_def run_effects_def Let_def)
next
  case (UpdateField f x)
  with assms show ?thesis by (auto simp: input_follows_def updateField_def)
next
  case (SelectAttachment files)
  with assms show ?thesis
    by (auto simp: input_follows_def selectAttachment_def handleFileChange_def add_toast_def
        split: list.splits)
next
  case RemoveAttachment
  with assms show ?thesis by (auto simp: input_follows_def handleRemoveFile_def Let_def)
next
  case (Submit net)
  with assms handleSubmit_input_follows [OF assms, of pf p net] show ?thesis
    by simp
qed

lemma run_input_follows: "input_follows (run pf p as initial_state)"
proof (rule run_invariant)
  show "input_follows initial_state"
    by (simp add: input_follows_def initial_state_def)
qed (rule step_input_follows)

text \<open>The token is never found invalid.\<close>

definition token_not_invalid :: "state \<Rightarrow> bool" where
  "token_not_invalid st = (isTokenValid st \<noteq> Some False)"

lemma step_token_not_invalid:
  assumes "token_not_invalid st"
  shows "token_not_invalid (step pf p a st)"
proof (cases a)
  case Effects
  with assms show ?thesis by (simp add: token_not_invalid_def run_effects_def Let_def)
next
  case (UpdateField f x)
  with assms show ?thesis by (simp add: token_not_invalid_def updateField_def)
next
  case (SelectAttachment files)
  with assms show ?thesis
    by (simp add: token_not_invalid_def selectAttachment_def handleFileChange_def add_toast_def
        split: list.splits)
next
  case RemoveAttachment
  with assms show ?thesis
    by (simp add: token_not_invalid_def handleRemoveFile_def Let_def add_toast_def
        split: option.splits)
next
  case (Submit net)
  with assms show ?thesis
    by (simp add: token_not_invalid_def handleSubmit_def Let_def onSubmit_isTokenValid)
qed

lemma run_token_not_invalid: "token_not_invalid (run pf p as initial_state)"
proof (rule run_invariant)
  show "token_not_invalid initial_state"
    by (simp add: token_not_invalid_def initial_state_def)
qed (rule step_token_not_invalid)

lemma run_not_rejected: "\<not> token_rejected p (run pf p as initial_state)"
  using run_token_not_invalid [of pf p as]
  by (simp add: token_rejected_def token_not_invalid_def)

text \<open>The constraints on the selected file, when there is one.\<close>

definition attachment_ok :: "state \<Rightarrow> bool" where
  "attachment_ok st =
     (case selectedFile st of
        None \<Rightarrow> True
      | Some f \<Rightarrow> file_type f \<in> set allowedTypes \<and> file_size f \<le> maxSize)"

lemma selectAttachment_attachment_ok:
  "attachment_ok st \<Longrightarrow> attachment_ok (selectAttachment files st)"
  by (auto simp: attachment_ok_def selectAttachment_def handleFileChange_def add_toast_def
      split: list.splits)

lemma handleRemoveFile_attachment_ok: "attachment_ok (handleRemoveFile st)"
  by (simp add: attachment_ok_def handleRemoveFile_def Let_def)

lemma updateField_attachment_ok: "attachment_ok st \<Longrightarrow> attachment_ok (updateField f x st)"
  by (simp add: attachment_ok_def updateField_def)

lemma run_effects_attachment_ok: "attachment_ok st \<Longrightarrow> attachment_ok (run_effects p st)"
  by (simp add: attachment_ok_def run_effects_def Let_def)

lemma onSubmit_attachment_ok:
  assumes "attachment_ok st"
  shows "attachment_ok (onSubmit pf p net data st)"
  using onSubmit_selectedFile [of pf p net data st] assms
  by (auto simp: attachment_ok_def)

lemma handleSubmit_attachment_ok:
  assumes "attachment_ok st"
  shows "attachment_ok (handleSubmit pf p net st)"
proof -
  from assms have "attachment_ok (st\<lparr>formErrors := []\<rparr>)"
    and "attachment_ok (st\<lparr>formErrors := formSchema pf (formValues st)\<rparr>)"
    by (simp_all add: attachment_ok_def)
  then show ?thesis
    by (simp add: handleSubmit_def Let_def onSubmit_attachment_ok)
qed

lemma step_attachment_ok: "attachment_ok st \<Longrightarrow> attachment_ok (step pf p a st)"
  by (cases a)
    (simp_all add: run_effects_attachment_ok updateField_attachment_ok
      selectAttachment_attachment_ok handleRemoveFile_attachment_ok handleSubmit_attachment_ok)

lemma run_attachment_ok: "attachment_ok (run pf p as initial_state)"
proof (rule run_invariant)
  show "attachment_ok initial_state"
    by (simp add: attachment_ok_def initial_state_def)
qed (rule step_attachment_ok)

section \<open>Validation gates submission\<close>

lemma formSchema_empty_iff:
  "(formSchema pf v = []) =
     (2 \<le> length (firstName v) \<and> 2 \<le> length (lastName v) \<and> zod_email pf (email v) \<and>
      10 \<le> length (phone v) \<and> 5 \<le> length (address v))"
  by (auto simp: formSchema_def)

text \<open>
  C1. The schema accepts a record exactly when the first and the last name have at
  least 2 code units, the email passes the email test of zod, the phone number has at
  least 10 and the address at least 5. When a field of the form fails its rule,
  \<open>handleSubmit\<close> only stores the issues: \<open>onSubmit\<close> does not run and no request is
  made.
\<close>

theorem formSchema_gates_submit:
  "(formSchema pf v = []) =
     (2 \<le> length (firstName v) \<and> 2 \<le> length (lastName v) \<and> zod_email pf (email v) \<and>
      10 \<le> length (phone v) \<and> 5 \<le> length (address v)) \<and>
   (length (firstName (formValues st)) < 2 \<or> length (lastName (formValues st)) < 2 \<or>
    \<not> zod_email pf (email (formValues st)) \<or> length (phone (formValues st)) < 10 \<or>
    length (address (formValues st)) < 5 \<longrightarrow>
      formSchema pf (formValues st) \<noteq> [] \<and>
      handleSubmit pf p net st = st\<lparr>formErrors := formSchema pf (formValues st)\<rparr> \<and>
      requests (handleSubmit pf p net st) = requests st)"
proof -
  have "formSchema pf (formValues st) \<noteq> [] \<and>
      handleSubmit pf p net st = st\<lparr>formErrors := formSchema pf (formValues st)\<rparr> \<and>
      requests (handleSubmit pf p net st) = requests st"
    if "length (firstName (formValues st)) < 2 \<or> length (lastName (formValues st)) < 2 \<or>
        \<not> zod_email pf (email (formValues st)) \<or> length (phone (formValues st)) < 10 \<or>
        length (address (formValues st)) < 5"
  proof -
    from that have bad: "formSchema pf (formValues st) \<noteq> []"
      by (auto simp: formSchema_empty_iff)
    then show ?thesis by (simp add: handleSubmit_invalid)
  qed
  then show ?thesis using formSchema_empty_iff [of pf v] by blast
qed

theorem formSchema_gates_submit_witness:
  "formSchema demo_platform demo_values = [] \<and>
   requests (handleSubmit demo_platform demo_props Never
      (initial_state\<lparr>formValues := demo_values\<lparr>phone := js ''123''\<rparr>\<rparr>)) = []"
  using formSchema_gates_submit [of demo_platform demo_values
          "initial_state\<lparr>formValues := demo_values\<lparr>phone := js ''123''\<rparr>\<rparr>" demo_props Never]
  by (simp add: demo_values_def demo_platform_def js_def initial_state_def)

section \<open>The attachment: selection and removal\<close>

text \<open>
  C2. A candidate whose MIME type is not one of the six allowed types, or whose size is
  above 10 MiB (10 * 1024 * 1024 bytes), is rejected: the selected file is the one
  selected before, the input element is emptied and one error toast is shown. A
  candidate that meets both constraints becomes the selected file.
\<close>

theorem selectAttachment_rejects_or_replaces:
  "(file_type f \<notin>
      {js ''application/pdf'', js ''application/msword'',
       js ''application/vnd.openxmlformats-officedocument.wordprocessingml.document'',
       js ''text/plain'', js ''image/jpeg'', js ''image/png''}
    \<or> 10 * 1024 * 1024 < file_size f \<longrightarrow>
      selectedFile (selectAttachment (f # fs) st) = selectedFile st \<and>
      fileInput (selectAttachment (f # fs) st) = [] \<and>
      (\<exists>t. toasts (selectAttachment (f # fs) st) = toasts st @ [t] \<and>
           toast_kind t = ToastError)) \<and>
   (file_type f \<in>
      {js ''application/pdf'', js ''application/msword'',
       js ''application/vnd.openxmlformats-officedocument.wordprocessingml.document'',
       js ''text/plain'', js ''image/jpeg'', js ''image/png''}
    \<and> file_size f \<le> 10 * 1024 * 1024 \<longrightarrow>
      selectedFile (selectAttachment (f # fs) st) = Some f)"
  by (auto simp: selectAttachment_def handleFileChange_def add_toast_def allowedTypes_def
      maxSize_def)

theorem selectAttachment_rejects_or_replaces_witness:
  "selectedFile (selectAttachment [demo_exe] (initial_state\<lparr>selectedFile := Some demo_pdf\<rparr>))
     = Some demo_pdf \<and>
   selectedFile (selectAttachment [demo_big] (initial_state\<lparr>selectedFile := Some demo_pdf\<rparr>))
     = Some demo_pdf \<and>
   selectedFile (selectAttachment [demo_pdf] initial_state) = Some demo_pdf"
  using
    selectAttachment_rejects_or_replaces
      [of demo_exe "[]" "initial_state\<lparr>selectedFile := Some demo_pdf\<rparr>"]
    selectAttachment_rejects_or_replaces
      [of demo_big "[]" "initial_state\<lparr>selectedFile := Some demo_pdf\<rparr>"]
    selectAttachment_rejects_or_replaces [of demo_pdf "[]" initial_state]
  by (simp add: demo_exe_def demo_big_def demo_pdf_def js_def)

text \<open>
  C9. \<open>handleRemoveFile\<close> clears the selected file in every state. With no file
  selected it shows no toast and changes nothing but the input element, which it
  empties; in every state of a run the input element is empty already when no file is
  selected, so the call changes nothing at all. Calling it twice is calling it once.
\<close>

theorem handleRemoveFile_clears_and_is_idempotent:
  "selectedFile (handleRemoveFile st) = None \<and>
   (selectedFile st = None \<longrightarrow> handleRemoveFile st = st\<lparr>fileInput := []\<rparr>) \<and>
   (selectedFile (run pf p as initial_state) = None \<longrightarrow>
      handleRemoveFile (run pf p as initial_state) = run pf p as initial_state) \<and>
   handleRemoveFile (handleRemoveFile st) = handleRemoveFile st"
proof -
  have clears: "selectedFile (handleRemoveFile s) = None" for s
    by (simp add: handleRemoveFile_def Let_def)
  have none: "handleRemoveFile s = s\<lparr>fileInput := []\<rparr>" if "selectedFile s = None" for s
    using that by (simp add: handleRemoveFile_def Let_def)
  have "handleRemoveFile s = s" if "selectedFile s = None" and "input_follows s" for s
    using that none [of s] by (simp add: input_follows_def)
  then have noop: "selectedFile (run pf p as initial_state) = None \<longrightarrow>
      handleRemoveFile (run pf p as initial_state) = run pf p as initial_state"
    using run_input_follows [of pf p as] by blast
  have "handleRemoveFile (handleRemoveFile st) = handleRemoveFile st"
    by (simp add: handleRemoveFile_def Let_def add_toast_def split: option.splits)
  with clears none noop show ?thesis by blast
qed

theorem handleRemoveFile_clears_and_is_idempotent_witness:
  "selectedFile (run demo_platform demo_props [Effects, Effects] initial_state) = None \<and>
   handleRemoveFile (run demo_platform demo_props [Effects, Effects] initial_state)
     = run demo_platform demo_props [Effects, Effects] initial_state \<and>
   selectedFile (handleRemoveFile (initial_state\<lparr>selectedFile := Some demo_pdf\<rparr>)) = None \<and>
   handleRemoveFile (initial_state\<lparr>fileInput := [demo_exe]\<rparr>) = initial_state"
proof -
  have none: "selectedFile (run demo_platform demo_props [Effects, Effects] initial_state) = None"
    by (simp add: run_effects_def initial_state_def Let_def)
  have none': "selectedFile (initial_state\<lparr>fileInput := [demo_exe]\<rparr>) = None"
    by (simp add: initial_state_def)
  from handleRemoveFile_clears_and_is_idempotent
         [of "initial_state\<lparr>selectedFile := Some demo_pdf\<rparr>" demo_platform demo_props
            "[Effects, Effects]"]
    none
  have a: "selectedFile (run demo_platform demo_props [Effects, Effects] initial_state) = None \<and>
   handleRemoveFile (run demo_platform demo_props [Effects, Effects] initial_state)
     = run demo_platform demo_props [Effects, Effects] initial_state \<and>
   selectedFile (handleRemoveFile (initial_state\<lparr>selectedFile := Some demo_pdf\<rparr>)) = None"
    by blast
  from handleRemoveFile_clears_and_is_idempotent
         [of "initial_state\<lparr>fileInput := [demo_exe]\<rparr>" demo_platform demo_props "[]"]
    none'
  have "handleRemoveFile (initial_state\<lparr>fileInput := [demo_exe]\<rparr>) =
        initial_state\<lparr>fileInput := [demo_exe], fileInput := []\<rparr>"
    by blast
  then have "handleRemoveFile (initial_state\<lparr>fileInput := [demo_exe]\<rparr>) = initial_state"
    by (simp add: initial_state_def)
  with a show ?thesis by blast
qed

section \<open>The submitting flag\<close>


text \<open>
  The one run that does not complete: the response arrives before the timer fires, the
  timer is cleared, and the body never arrives. \<open>onSubmit\<close> then waits with
  \<open>isSubmitting\<close> true, the request is not aborted and no error is shown.
\<close>

lemma pending_body_keeps_submitting:
  assumes "\<not> token_rejected p st" and "t < 30000" and "resp_body r = None"
  shows "isSubmitting (onSubmit pf p (Settles t (Resolves r)) data st) \<and>
         surfaced_error (onSubmit pf p (Settles t (Resolves r)) data st) = surfaced_error st \<and>
         \<not> req_aborted (sent_request pf p (Settles t (Resolves r)) data st)"
proof -
  from assms(2,3) have "submit_result pf (Settles t (Resolves r)) = Pending"
    by (simp add: submit_result_def fetch_with_timer_def)
  from onSubmit_pending [OF assms(1) this] assms(2) show ?thesis
    by (simp add: surfaced_error_def sent_request_def fetch_with_timer_def)
qed



section \<open>The token gate\<close>



section \<open>The payload\<close>

lemma body_keys:
  "fst ` set (build_formData pf p data st) =
     {js ''firstName'', js ''lastName'', js ''email'', js ''phone'', js ''address''} \<union>
     (if token p \<noteq> [] then {js ''token''} else {}) \<union>
     (if missingFields p \<noteq> [] then {js ''missingFields''} else {}) \<union>
     (if selectedFile st \<noteq> None then {js ''document''} else {})"
  by (auto simp: build_formData_def split: option.splits)

lemma body_has_token:
  "(js ''token'' \<in> fst ` set (build_formData pf p data st)) = (token p \<noteq> [])"
  by (simp add: body_keys) (simp add: js_def)

lemma body_has_missingFields:
  "(js ''missingFields'' \<in> fst ` set (build_formData pf p data st)) = (missingFields p \<noteq> [])"
  by (simp add: body_keys) (simp add: js_def)

text \<open>
  C10. An empty token is what the component reads when the caller leaves the token
  out, so the two cannot differ in \<open>onSubmit\<close>. With an empty token the gate is not
  taken, whatever \<open>isTokenValid\<close> is, and the payload of the request has no field
  \<open>token\<close>. In every request the field \<open>token\<close> is there exactly when the token is not
  empty, and the field \<open>missingFields\<close> exactly when the list is not empty.
\<close>

theorem empty_token_is_no_token:
  "AttractiveForm_props (rp\<lparr>raw_token := Some []\<rparr>) =
     AttractiveForm_props (rp\<lparr>raw_token := None\<rparr>) \<and>
   token (AttractiveForm_props (rp\<lparr>raw_token := None\<rparr>)) = [] \<and>
   (token p = [] \<longrightarrow>
      \<not> token_rejected p st \<and>
      (\<exists>req. requests (onSubmit pf p net data st) = requests st @ [req] \<and>
             js ''token'' \<notin> fst ` set (req_body req))) \<and>
   (\<not> token_rejected p st \<longrightarrow>
      (\<exists>req. requests (onSubmit pf p net data st) = requests st @ [req] \<and>
             (js ''token'' \<in> fst ` set (req_body req)) = (token p \<noteq> []) \<and>
             (js ''missingFields'' \<in> fst ` set (req_body req)) = (missingFields p \<noteq> [])))"
proof -
  have defaults: "AttractiveForm_props (rp\<lparr>raw_token := Some []\<rparr>) =
     AttractiveForm_props (rp\<lparr>raw_token := None\<rparr>) \<and>
   token (AttractiveForm_props (rp\<lparr>raw_token := None\<rparr>)) = []"
    by (simp add: AttractiveForm_props_def)
  have sent: "\<exists>req. requests (onSubmit pf p net data st) = requests st @ [req] \<and>
             (js ''token'' \<in> fst ` set (req_body req)) = (token p \<noteq> []) \<and>
             (js ''missingFields'' \<in> fst ` set (req_body req)) = (missingFields p \<noteq> [])"
    if "\<not> token_rejected p st"
  proof -
    have "req_body (sent_request pf p net data st) = build_formData pf p data st"
      by (simp add: sent_request_def)
    with onSubmit_requests [OF that, of pf net data] show ?thesis
      by (simp add: body_has_token body_has_missingFields)
  qed
  have empty: "\<not> token_rejected p st \<and>
      (\<exists>req. requests (onSubmit pf p net data st) = requests st @ [req] \<and>
             js ''token'' \<notin> fst ` set (req_body req))"
    if "token p = []"
  proof -
    from that have "\<not> token_rejected p st" by (simp add: token_rejected_def)
    with sent that show ?thesis by auto
  qed
  from defaults sent empty show ?thesis by blast
qed

theorem empty_token_is_no_token_witness:
  "\<not> token_rejected (demo_props\<lparr>token := []\<rparr>) (initial_state\<lparr>isTokenValid := Some False\<rparr>) \<and>
   (\<exists>req. requests (onSubmit demo_platform (demo_props\<lparr>token := []\<rparr>) Never demo_values
              (initial_state\<lparr>isTokenValid := Some False\<rparr>)) = [req] \<and>
          js ''token'' \<notin> fst ` set (req_body req))"
proof -
  have "token (demo_props\<lparr>token := []\<rparr>) = []" by simp
  with empty_token_is_no_token
         [of _ "demo_props\<lparr>token := []\<rparr>" "initial_state\<lparr>isTokenValid := Some False\<rparr>"
            demo_platform Never demo_values]
  have "\<not> token_rejected (demo_props\<lparr>token := []\<rparr>) (initial_state\<lparr>isTokenValid := Some False\<rparr>) \<and>
   (\<exists>req. requests (onSubmit demo_platform (demo_props\<lparr>token := []\<rparr>) Never demo_values
              (initial_state\<lparr>isTokenValid := Some False\<rparr>))
            = requests (initial_state\<lparr>isTokenValid := Some False\<rparr>) @ [req] \<and>
          js ''token'' \<notin> fst ` set (req_body req))"
    by blast
  then show ?thesis by (simp add: initial_state_def)
qed

section \<open>The attachment constraints as an invariant\<close>

text \<open>
  C8. In every state of a run the selected file, when there is one, has one of the six
  allowed MIME types and at most 10 MiB. Each operation keeps the constraint
  (\<open>attachment_ok\<close>) once it holds. Only selection checks it: a submission that goes
  out sends the selected file as the field \<open>document\<close> whatever its type and size.
\<close>

theorem attachment_constraints_hold:
  "(case selectedFile (run pf p as initial_state) of
      None \<Rightarrow> True
    | Some f \<Rightarrow>
        file_type f \<in>
          {js ''application/pdf'', js ''application/msword'',
           js ''application/vnd.openxmlformats-officedocument.wordprocessingml.document'',
           js ''text/plain'', js ''image/jpeg'', js ''image/png''} \<and>
        file_size f \<le> 10 * 1024 * 1024) \<and>
   (attachment_ok st \<longrightarrow>
      attachment_ok (selectAttachment files st) \<and>
      attachment_ok (handleRemoveFile st) \<and>
      attachment_ok (updateField fld x st) \<and>
      attachment_ok (handleSubmit pf p net st)) \<and>
   (selectedFile st = Some f \<and> \<not> token_rejected p st \<and> formSchema pf (formValues st) = [] \<longrightarrow>
      (\<exists>req. requests (handleSubmit pf p net st) = requests st @ [req] \<and>
             (js ''document'', FileEntry f) \<in> set (req_body req)))"
proof -
  have inv: "case selectedFile (run pf p as initial_state) of
      None \<Rightarrow> True
    | Some f \<Rightarrow>
        file_type f \<in>
          {js ''application/pdf'', js ''application/msword'',
           js ''application/vnd.openxmlformats-officedocument.wordprocessingml.document'',
           js ''text/plain'', js ''image/jpeg'', js ''image/png''} \<and>
        file_size f \<le> 10 * 1024 * 1024"
    using run_attachment_ok [of pf p as]
    by (simp add: attachment_ok_def allowedTypes_def maxSize_def split: option.splits)
  have kept: "attachment_ok (selectAttachment files st) \<and>
      attachment_ok (handleRemoveFile st) \<and>
      attachment_ok (updateField fld x st) \<and>
      attachment_ok (handleSubmit pf p net st)" if "attachment_ok st"
    using that
    by (simp add: selectAttachment_attachment_ok handleRemoveFile_attachment_ok
        updateField_attachment_ok handleSubmit_attachment_ok)
  have sent: "\<exists>req. requests (handleSubmit pf p net st) = requests st @ [req] \<and>
             (js ''document'', FileEntry f) \<in> set (req_body req)"
    if "selectedFile st = Some f \<and> \<not> token_rejected p st \<and> formSchema pf (formValues st) = []"
  proof -
    from that have "\<not> token_rejected p (st\<lparr>formErrors := []\<rparr>)"
      by (simp add: token_rejected_def)
    from onSubmit_requests [OF this, of pf net "formValues st"] that show ?thesis
      by (simp add: handleSubmit_valid sent_request_def build_formData_def)
  qed
  from inv kept sent show ?thesis by blast
qed

theorem attachment_constraints_hold_witness:
  "selectedFile (run demo_platform demo_props
       [Effects, Effects, SelectAttachment [demo_pdf], SelectAttachment [demo_exe]]
       initial_state) = Some demo_pdf \<and>
   file_type demo_pdf \<in> set allowedTypes \<and>
   attachment_ok (selectAttachment [demo_big] initial_state) \<and>
   (\<exists>req. requests (handleSubmit demo_platform demo_props Never
              (initial_state\<lparr>formValues := demo_values, selectedFile := Some demo_exe\<rparr>))
            = [req] \<and>
          (js ''document'', FileEntry demo_exe) \<in> set (req_body req))"
proof -
  have run: "selectedFile (run demo_platform demo_props
       [Effects, Effects, SelectAttachment [demo_pdf], SelectAttachment [demo_exe]]
       initial_state) = Some demo_pdf"
    by (simp add: run_effects_def selectAttachment_def handleFileChange_def add_toast_def
        initial_state_def Let_def allowedTypes_def maxSize_def demo_pdf_def demo_exe_def
        demo_props_def js_def)
  have ok0: "attachment_ok initial_state"
    by (simp add: attachment_ok_def initial_state_def)
  have sub: "selectedFile (initial_state\<lparr>formValues := demo_values, selectedFile := Some demo_exe\<rparr>)
        = Some demo_exe \<and>
      \<not> token_rejected demo_props
          (initial_state\<lparr>formValues := demo_values, selectedFile := Some demo_exe\<rparr>) \<and>
      formSchema demo_platform
        (formValues (initial_state\<lparr>formValues := demo_values, selectedFile := Some demo_exe\<rparr>))
        = []"
    by (simp add: token_rejected_def initial_state_def formSchema_def demo_values_def
        demo_platform_def js_def)
  note inst = attachment_constraints_hold
      [of demo_platform demo_props
          "[Effects, Effects, SelectAttachment [demo_pdf], SelectAttachment [demo_exe]]"
          _ _ _ _ Never]
  from inst [of initial_state "[demo_big]"] run ok0
  have a: "file_type demo_pdf \<in> set allowedTypes \<and>
           attachment_ok (selectAttachment [demo_big] initial_state)"
    by (simp add: allowedTypes_def)
  from inst [of "initial_state\<lparr>formValues := demo_values, selectedFile := Some demo_exe\<rparr>"
              _ _ _ demo_exe] sub
  have "\<exists>req. requests (handleSubmit demo_platform demo_props Never
              (initial_state\<lparr>formValues := demo_values, selectedFile := Some demo_exe\<rparr>))
            = requests (initial_state\<lparr>formValues := demo_values, selectedFile := Some demo_exe\<rparr>)
              @ [req] \<and>
          (js ''document'', FileEntry demo_exe) \<in> set (req_body req)"
    by blast
  then have b: "\<exists>req. requests (handleSubmit demo_platform demo_props Never
              (initial_state\<lparr>formValues := demo_values, selectedFile := Some demo_exe\<rparr>))
            = [req] \<and>
          (js ''document'', FileEntry demo_exe) \<in> set (req_body req)"
    by (simp add: initial_state_def)
  from run a b show ?thesis by blast
qed

section \<open>The request and its timeout\<close>

lemma submit_result_timeout:
  "net = Never \<or> (\<exists>t r. net = Settles t r \<and> 30000 < t) \<Longrightarrow>
   submit_result pf net = Threw (ErrorObj (js ''AbortError'') (abort_message pf)) \<and>
   snd (fetch_with_timer pf 30000 net)"
  by (auto simp: submit_result_def fetch_with_timer_def)

lemma submit_result_resolved:
  "t < 30000 \<Longrightarrow> resp_body r = Some body \<Longrightarrow>
   submit_result pf (Settles t (Resolves r)) =
     (if \<not> response_ok r
      then Threw (new_Error pf (server_error_value pf (resp_status r) body))
      else (case response_json pf body of Inl e \<Rightarrow> Threw e | Inr v \<Rightarrow> Returned))"
  by (simp add: submit_result_def fetch_with_timer_def)

lemma error_description_abort: "error_description (ErrorObj (js ''AbortError'') m) = msg_timeout"
  by (simp add: error_description_def)

lemma messages_distinct: "msg_timeout \<noteq> msg_generic \<and> msg_timeout \<noteq> msg_network"
  by (simp add: msg_timeout_def msg_generic_def msg_network_def js_def)

text \<open>
  What the abort timer does bound. A submission that passes the token gate makes exactly
  one request: a POST to the endpoint, with an abort timer of 30000 milliseconds on the
  wait for \<open>fetch\<close>. When the network has not settled the request after more than 30000
  milliseconds, or never settles it, the request is aborted, the error toast carries the
  timeout message, which is neither the generic nor the network-failure message, and
  \<open>isSubmitting\<close> is false again. In a run the gate is never taken.
\<close>

lemma submit_posts_once_with_timeout:
  "(\<not> token_rejected p st \<longrightarrow>
      (\<exists>req. requests (onSubmit pf p net data st) = requests st @ [req] \<and>
             req_method req = js ''POST'' \<and>
             req_url req = api_endpoint pf \<and>
             req_timeout req = 30000)) \<and>
   (\<not> token_rejected p st \<and> (net = Never \<or> (\<exists>t r. net = Settles t r \<and> 30000 < t)) \<longrightarrow>
      (\<exists>req. requests (onSubmit pf p net data st) = requests st @ [req] \<and> req_aborted req) \<and>
      surfaced_error (onSubmit pf p net data st) =
        Some (js ''Die Verbindung zum Server hat zu lange gedauert. Bitte '' @ [0xFC] @
              js ''berpr'' @ [0xFC] @
              js ''fen Sie Ihre Internetverbindung und versuchen Sie es erneut.'') \<and>
      \<not> isSubmitting (onSubmit pf p net data st)) \<and>
   msg_timeout \<noteq> msg_generic \<and> msg_timeout \<noteq> msg_network \<and>
   \<not> token_rejected p (run pf p as initial_state)"
proof -
  have once: "\<exists>req. requests (onSubmit pf p net data st) = requests st @ [req] \<and>
             req_method req = js ''POST'' \<and>
             req_url req = api_endpoint pf \<and>
             req_timeout req = 30000" if "\<not> token_rejected p st"
    using onSubmit_requests [OF that, of pf net data] by (simp add: sent_request_def)
  have late: "(\<exists>req. requests (onSubmit pf p net data st) = requests st @ [req] \<and> req_aborted req) \<and>
      surfaced_error (onSubmit pf p net data st) =
        Some (js ''Die Verbindung zum Server hat zu lange gedauert. Bitte '' @ [0xFC] @
              js ''berpr'' @ [0xFC] @
              js ''fen Sie Ihre Internetverbindung und versuchen Sie es erneut.'') \<and>
      \<not> isSubmitting (onSubmit pf p net data st)"
    if "\<not> token_rejected p st \<and> (net = Never \<or> (\<exists>t r. net = Settles t r \<and> 30000 < t))"
  proof -
    from that have gate: "\<not> token_rejected p st"
      and net: "net = Never \<or> (\<exists>t r. net = Settles t r \<and> 30000 < t)"
      by blast+
    note abort = submit_result_timeout [OF net, of pf]
    from abort have "req_aborted (sent_request pf p net data st)"
      by (simp add: sent_request_def)
    with onSubmit_requests [OF gate, of pf net data]
    have "\<exists>req. requests (onSubmit pf p net data st) = requests st @ [req] \<and> req_aborted req"
      by simp
    moreover from surfaced_error_failure [OF gate, of pf net _ data] abort
    have "surfaced_error (onSubmit pf p net data st) = Some msg_timeout"
      by (simp add: error_description_abort)
    moreover from gate abort have "\<not> isSubmitting (onSubmit pf p net data st)"
      by (simp add: onSubmit_isSubmitting submit_result_pending [symmetric])
    ultimately show ?thesis by (simp add: msg_timeout_def)
  qed
  from once late messages_distinct run_not_rejected [of p pf as] show ?thesis by blast
qed

lemma submit_posts_once_with_timeout_example:
  "(\<exists>req. requests (onSubmit demo_platform demo_props
              (Settles 120 (Resolves \<lparr>resp_status = 200, resp_body = Some (Inr (js ''{}''))\<rparr>))
              demo_values initial_state) = [req] \<and>
          req_method req = js ''POST'' \<and>
          req_url req = js ''http://37.120.176:8005/api/client/submit-missing-info'' \<and>
          req_timeout req = 30000) \<and>
   (\<exists>req. requests (onSubmit demo_platform demo_props
              (Settles 30001 (Resolves \<lparr>resp_status = 200, resp_body = Some (Inr (js ''{}''))\<rparr>))
              demo_values initial_state) = [req] \<and>
          req_aborted req) \<and>
   surfaced_error (onSubmit demo_platform demo_props
        (Settles 30001 (Resolves \<lparr>resp_status = 200, resp_body = Some (Inr (js ''{}''))\<rparr>))
        demo_values initial_state) =
     Some (js ''Die Verbindung zum Server hat zu lange gedauert. Bitte '' @ [0xFC] @
           js ''berpr'' @ [0xFC] @
           js ''fen Sie Ihre Internetverbindung und versuchen Sie es erneut.'') \<and>
   \<not> isSubmitting (onSubmit demo_platform demo_props
        (Settles 30001 (Resolves \<lparr>resp_status = 200, resp_body = Some (Inr (js ''{}''))\<rparr>))
        demo_values initial_state)"
proof -
  have gate: "\<not> token_rejected demo_props initial_state"
    by (simp add: token_rejected_def initial_state_def)
  have late: "\<not> token_rejected demo_props initial_state \<and>
        (Settles 30001 (Resolves \<lparr>resp_status = 200, resp_body = Some (Inr (js ''{}''))\<rparr>)
           = Never \<or>
         (\<exists>t r. Settles 30001 (Resolves \<lparr>resp_status = 200, resp_body = Some (Inr (js ''{}''))\<rparr>)
                  = Settles t r \<and> 30000 < t))"
    by (simp add: token_rejected_def initial_state_def)
  have url: "api_endpoint demo_platform =
      js ''http://37.120.176:8005/api/client/submit-missing-info''"
    by (simp add: api_endpoint_def demo_platform_def js_def)
  from submit_posts_once_with_timeout
         [of demo_props initial_state demo_platform
            "Settles 120 (Resolves \<lparr>resp_status = 200, resp_body = Some (Inr (js ''{}''))\<rparr>)"
            demo_values]
    gate
  have "\<exists>req. requests (onSubmit demo_platform demo_props
              (Settles 120 (Resolves \<lparr>resp_status = 200, resp_body = Some (Inr (js ''{}''))\<rparr>))
              demo_values initial_state) = requests initial_state @ [req] \<and>
          req_method req = js ''POST'' \<and>
          req_url req = api_endpoint demo_platform \<and>
          req_timeout req = 30000"
    by blast
  then have once: "\<exists>req. requests (onSubmit demo_platform demo_props
              (Settles 120 (Resolves \<lparr>resp_status = 200, resp_body = Some (Inr (js ''{}''))\<rparr>))
              demo_values initial_state) = [req] \<and>
          req_method req = js ''POST'' \<and>
          req_url req = js ''http://37.120.176:8005/api/client/submit-missing-info'' \<and>
          req_timeout req = 30000"
    by (simp add: initial_state_def url)
  from submit_posts_once_with_timeout
         [of demo_props initial_state demo_platform
            "Settles 30001 (Resolves \<lparr>resp_status = 200, resp_body = Some (Inr (js ''{}''))\<rparr>)"
            demo_values]
    late
  have "(\<exists>req. requests (onSubmit demo_platform demo_props
              (Settles 30001 (Resolves \<lparr>resp_status = 200, resp_body = Some (Inr (js ''{}''))\<rparr>))
              demo_values initial_state) = requests initial_state @ [req] \<and>
          req_aborted req) \<and>
   surfaced_error (onSubmit demo_platform demo_props
        (Settles 30001 (Resolves \<lparr>resp_status = 200, resp_body = Some (Inr (js ''{}''))\<rparr>))
        demo_values initial_state) =
     Some (js ''Die Verbindung zum Server hat zu lange gedauert. Bitte '' @ [0xFC] @
           js ''berpr'' @ [0xFC] @
           js ''fen Sie Ihre Internetverbindung und versuchen Sie es erneut.'') \<and>
   \<not> isSubmitting (onSubmit demo_platform demo_props
        (Settles 30001 (Resolves \<lparr>resp_status = 200, resp_body = Some (Inr (js ''{}''))\<rparr>))
        demo_values initial_state)"
    by blast
  then have "(\<exists>req. requests (onSubmit demo_platform demo_props
              (Settles 30001 (Resolves \<lparr>resp_status = 200, resp_body = Some (Inr (js ''{}''))\<rparr>))
              demo_values initial_state) = [req] \<and>
          req_aborted req) \<and>
   surfaced_error (onSubmit demo_platform demo_props
        (Settles 30001 (Resolves \<lparr>resp_status = 200, resp_body = Some (Inr (js ''{}''))\<rparr>))
        demo_values initial_state) =
     Some (js ''Die Verbindung zum Server hat zu lange gedauert. Bitte '' @ [0xFC] @
           js ''berpr'' @ [0xFC] @
           js ''fen Sie Ihre Internetverbindung und versuchen Sie es erneut.'') \<and>
   \<not> isSubmitting (onSubmit demo_platform demo_props
        (Settles 30001 (Resolves \<lparr>resp_status = 200, resp_body = Some (Inr (js ''{}''))\<rparr>))
        demo_values initial_state)"
    by (simp add: initial_state_def)
  with once show ?thesis by blast
qed

text \<open>
  C6. The wait of a submission is not bounded by the 30 seconds. The timer is set with
  the comment that it is there to prevent hanging, and it is cleared as soon as \<open>fetch\<close>
  has resolved, before the body is read. Here the response arrives after 120
  milliseconds and its body never does: \<open>onSubmit\<close> does not complete, \<open>isSubmitting\<close>
  stays true, the one request, sent with the timer of 30000 milliseconds, is not
  aborted, and no error is shown, the timeout message included.
\<close>

theorem stalled_body_is_never_timed_out:
  "\<not> submit_completes demo_platform
       (Settles 120 (Resolves \<lparr>resp_status = 200, resp_body = None\<rparr>)) \<and>
   isSubmitting (onSubmit demo_platform demo_props
       (Settles 120 (Resolves \<lparr>resp_status = 200, resp_body = None\<rparr>))
       demo_values initial_state) \<and>
   map req_timeout (requests (onSubmit demo_platform demo_props
       (Settles 120 (Resolves \<lparr>resp_status = 200, resp_body = None\<rparr>))
       demo_values initial_state)) = [30000] \<and>
   map req_aborted (requests (onSubmit demo_platform demo_props
       (Settles 120 (Resolves \<lparr>resp_status = 200, resp_body = None\<rparr>))
       demo_values initial_state)) = [False] \<and>
   surfaced_error (onSubmit demo_platform demo_props
       (Settles 120 (Resolves \<lparr>resp_status = 200, resp_body = None\<rparr>))
       demo_values initial_state) = None"
proof -
  have gate: "\<not> token_rejected demo_props initial_state"
    by (simp add: token_rejected_def initial_state_def)
  have pending: "submit_result demo_platform
      (Settles 120 (Resolves \<lparr>resp_status = 200, resp_body = None\<rparr>)) = Pending"
    by (simp add: submit_result_def fetch_with_timer_def)
  then have "\<not> submit_completes demo_platform
       (Settles 120 (Resolves \<lparr>resp_status = 200, resp_body = None\<rparr>))"
    by (simp add: submit_result_pending)
  moreover from onSubmit_pending [OF gate pending, of demo_values]
  have "isSubmitting (onSubmit demo_platform demo_props
       (Settles 120 (Resolves \<lparr>resp_status = 200, resp_body = None\<rparr>))
       demo_values initial_state)"
    and "map req_timeout (requests (onSubmit demo_platform demo_props
       (Settles 120 (Resolves \<lparr>resp_status = 200, resp_body = None\<rparr>))
       demo_values initial_state)) = [30000]"
    and "map req_aborted (requests (onSubmit demo_platform demo_props
       (Settles 120 (Resolves \<lparr>resp_status = 200, resp_body = None\<rparr>))
       demo_values initial_state)) = [False]"
    and "surfaced_error (onSubmit demo_platform demo_props
       (Settles 120 (Resolves \<lparr>resp_status = 200, resp_body = None\<rparr>))
       demo_values initial_state) = None"
    by (simp_all add: initial_state_def sent_request_def fetch_with_timer_def
        surfaced_error_def)
  ultimately show ?thesis by blast
qed

section \<open>A successful submission\<close>

text \<open>A form filled in by a run: the effects, four fields typed in, a file selected.\<close>

definition demo_filled :: state where
  "demo_filled =
     run demo_platform demo_props
       [Effects, Effects,
        UpdateField FirstName (js ''Anna''), UpdateField LastName (js ''Muster''),
        UpdateField Phone (js ''+43123456789''), UpdateField Address (js ''Hauptplatz 1''),
        SelectAttachment [demo_pdf]]
       initial_state"

lemma demo_filled_fields:
  "formValues demo_filled = demo_values \<and> selectedFile demo_filled = Some demo_pdf \<and>
   isTokenValid demo_filled = Some True \<and> requests demo_filled = []"
  by (simp add: demo_filled_def run_effects_def updateField_def selectAttachment_def
      handleFileChange_def add_toast_def initial_state_def empty_values_def Let_def
      allowedTypes_def maxSize_def demo_pdf_def demo_props_def demo_values_def js_def)

lemma demo_values_valid: "formSchema demo_platform demo_values = []"
  by (simp add: formSchema_def demo_values_def demo_platform_def js_def)

lemma JSON_parse_empty: "JSON_parse [] = None"
  by (simp add: JSON_parse_def)

lemma handleSubmit_field_cong:
  "formSchema pf (formValues st) = [] \<Longrightarrow> \<not> token_rejected p st \<Longrightarrow>
   submit_result pf net = Threw e \<Longrightarrow>
   formValues (handleSubmit pf p net st) = formValues st \<and>
   selectedFile (handleSubmit pf p net st) = selectedFile st"
  by (simp add: handleSubmit_valid onSubmit_failure token_rejected_def)

text \<open>
  C3, as stated, fails: a 204 response has no body, \<open>response.json()\<close> throws on it, and
  the \<open>catch\<close> block leaves the fields and the attachment as they were.
\<close>

theorem success_without_json_keeps_form:
  "formSchema demo_platform (formValues demo_filled) = [] \<and>
   response_ok \<lparr>resp_status = 204, resp_body = Some (Inr [])\<rparr> \<and>
   formValues (handleSubmit demo_platform demo_props
      (Settles 120 (Resolves \<lparr>resp_status = 204, resp_body = Some (Inr [])\<rparr>)) demo_filled)
     = demo_values \<and>
   firstName demo_values = js ''Anna'' \<and>
   selectedFile (handleSubmit demo_platform demo_props
      (Settles 120 (Resolves \<lparr>resp_status = 204, resp_body = Some (Inr [])\<rparr>)) demo_filled)
     = Some demo_pdf"
proof -
  have valid: "formSchema demo_platform (formValues demo_filled) = []"
    by (simp add: demo_filled_fields demo_values_valid)
  have gate: "\<not> token_rejected demo_props demo_filled"
    by (simp add: token_rejected_def demo_filled_fields)
  have ok: "response_ok \<lparr>resp_status = 204, resp_body = Some (Inr [])\<rparr>"
    by (simp add: response_ok_def)
  have "submit_result demo_platform
          (Settles 120 (Resolves \<lparr>resp_status = 204, resp_body = Some (Inr [])\<rparr>)) =
        Threw (ErrorObj (js ''SyntaxError'') (syntax_message demo_platform []))"
    by (simp add: submit_result_resolved [where body = "Inr []"] ok response_json_def
        JSON_parse_empty)
  from handleSubmit_field_cong [OF valid gate this] valid ok show ?thesis
    by (simp add: demo_filled_fields) (simp add: demo_values_def)
qed

text \<open>
  C3, amended. A valid record, a submission that passes the token gate, and a response
  within the 30 seconds with a status from 200 to 299 and a body that is JSON: then all
  fields are empty but the email, which is the \<open>clientEmail\<close> prop (empty when the
  caller gave none), no file is selected, the input element is empty and the redirect
  to \<open>/success\<close> is scheduled after 2000 milliseconds.
\<close>

theorem successful_submit_resets_form:
  "(formSchema pf (formValues st) = [] \<and> \<not> token_rejected p st \<and> t < 30000 \<and>
    200 \<le> resp_status r \<and> resp_status r \<le> 299 \<and>
    resp_body r = Some (Inr body) \<and> JSON_parse body = Some v \<longrightarrow>
      formValues (handleSubmit pf p (Settles t (Resolves r)) st) =
        \<lparr>firstName = [], lastName = [], email = clientEmail p, phone = [], address = []\<rparr> \<and>
      selectedFile (handleSubmit pf p (Settles t (Resolves r)) st) = None \<and>
      fileInput (handleSubmit pf p (Settles t (Resolves r)) st) = [] \<and>
      redirect (handleSubmit pf p (Settles t (Resolves r)) st) = Some (2000, js ''/success'')) \<and>
   clientEmail (AttractiveForm_props rp) =
     (case raw_clientEmail rp of None \<Rightarrow> [] | Some e \<Rightarrow> e)"
proof -
  have reset: "formValues (handleSubmit pf p (Settles t (Resolves r)) st) =
        \<lparr>firstName = [], lastName = [], email = clientEmail p, phone = [], address = []\<rparr> \<and>
      selectedFile (handleSubmit pf p (Settles t (Resolves r)) st) = None \<and>
      fileInput (handleSubmit pf p (Settles t (Resolves r)) st) = [] \<and>
      redirect (handleSubmit pf p (Settles t (Resolves r)) st) = Some (2000, js ''/success'')"
    if "formSchema pf (formValues st) = [] \<and> \<not> token_rejected p st \<and> t < 30000 \<and>
        200 \<le> resp_status r \<and> resp_status r \<le> 299 \<and>
        resp_body r = Some (Inr body) \<and> JSON_parse body = Some v"
  proof -
    from that have valid: "formSchema pf (formValues st) = []"
      and gate: "\<not> token_rejected p (st\<lparr>formErrors := []\<rparr>)"
      and t: "t < 30000" and ok: "response_ok r"
      and body: "resp_body r = Some (Inr body)" "JSON_parse body = Some v"
      by (simp_all add: token_rejected_def response_ok_def)
    from t ok body have "submit_result pf (Settles t (Resolves r)) = Returned"
      by (simp add: submit_result_resolved [where body = "Inr body"] response_json_def)
    from onSubmit_success [OF gate this] valid show ?thesis
      by (simp add: handleSubmit_valid)
  qed
  have "clientEmail (AttractiveForm_props rp) =
     (case raw_clientEmail rp of None \<Rightarrow> [] | Some e \<Rightarrow> e)"
    by (simp add: AttractiveForm_props_def)
  with reset show ?thesis by blast
qed

theorem successful_submit_resets_form_witness:
  "formValues (handleSubmit demo_platform demo_props
      (Settles 120 (Resolves \<lparr>resp_status = 200, resp_body = Some (Inr (js ''{\"ok\":true}''))\<rparr>))
      demo_filled) =
     \<lparr>firstName = [], lastName = [], email = js ''anna@example.com'', phone = [],
      address = []\<rparr> \<and>
   selectedFile (handleSubmit demo_platform demo_props
      (Settles 120 (Resolves \<lparr>resp_status = 200, resp_body = Some (Inr (js ''{\"ok\":true}''))\<rparr>))
      demo_filled) = None"
proof -
  have parse: "JSON_parse (js ''{\"ok\":true}'') = Some (JObj [(js ''ok'', JBool True)])"
    by code_simp
  have "formSchema demo_platform (formValues demo_filled) = [] \<and>
        \<not> token_rejected demo_props demo_filled \<and> (120::nat) < 30000 \<and>
        200 \<le> resp_status \<lparr>resp_status = 200, resp_body = Some (Inr (js ''{\"ok\":true}''))\<rparr> \<and>
        resp_status \<lparr>resp_status = 200, resp_body = Some (Inr (js ''{\"ok\":true}''))\<rparr> \<le> 299 \<and>
        resp_body \<lparr>resp_status = 200, resp_body = Some (Inr (js ''{\"ok\":true}''))\<rparr>
          = Some (Inr (js ''{\"ok\":true}'')) \<and>
        JSON_parse (js ''{\"ok\":true}'') = Some (JObj [(js ''ok'', JBool True)])"
    by (simp add: demo_filled_fields demo_values_valid token_rejected_def parse)
  with successful_submit_resets_form
         [of demo_platform demo_filled demo_props 120
            "\<lparr>resp_status = 200, resp_body = Some (Inr (js ''{\"ok\":true}''))\<rparr>"
            "js ''{\"ok\":true}''" "JObj [(js ''ok'', JBool True)]"]
  show ?thesis by (simp add: demo_props_def)
qed

section \<open>The message of a failed submission\<close>

















end
